theory Spec2Isabelle
  imports Main "HOL-Library.AList"
begin

section \<open>Data model of package rootmodule\<close>

text \<open>
  Go's \<open>error\<close> interface: \<open>errors.New\<close> and \<open>fmt.Errorf\<close> without \<open>%w\<close> give
  \<open>ErrorString\<close>, \<open>fmt.Errorf("...: %w", err)\<close> gives \<open>Wrapped\<close>. The \<open>nil\<close> error is
  \<open>None\<close> of \<open>error option\<close>.
\<close>

datatype error = ErrorString string | Wrapped string error

text \<open>
  Modelled from the spec: the accumulator of go-multierror (a library outside the
  repository), "an explicit accumulator type supporting append(error) and has-any-error".
  \<open>*multierror.Error\<close> is the list of the collected errors, the nil pointer and the
  empty accumulator both being \<open>[]\<close>; \<open>Append\<close> skips a nil error; \<open>ErrorOrNil\<close> is nil
  for the empty accumulator. Collaborators are taken to return plain errors, never
  accumulators of their own.
\<close>

type_synonym multierror = "error list"

definition Append :: "multierror \<Rightarrow> error option \<Rightarrow> multierror" where
  "Append errs err = (case err of None \<Rightarrow> errs | Some e \<Rightarrow> errs @ [e])"

definition ErrorOrNil :: "multierror \<Rightarrow> multierror option" where
  "ErrorOrNil errs = (if errs = [] then None else Some errs)"

text \<open>
  Modelled from the spec: the watched file of file.go (absent), "an immutable handle to a
  path plus a content fingerprint". A nil \<open>File\<close> is \<open>None\<close> of \<open>File option\<close>.
\<close>

datatype File = File (File_Path: string) (File_Fingerprint: string)

text \<open>
  Modelled from the spec: the manifest of module_manifest.go (absent), "an ordered
  sequence of ModuleRecords, each with: module key, relative directory, source address".
\<close>

record ModuleRecord =
  Key :: string
  SourceAddr :: string
  Dir :: string

record moduleManifest =
  rootDir :: string
  Records :: "ModuleRecord list"

text \<open>
  \<open>addrs.ProviderReferences\<close> is a Go map from local provider names to provider
  addresses; both are opaque values made by the address parsers. Assignment
  \<open>refs[k] = v\<close> is \<open>AList.update k v refs\<close>.
\<close>

type_synonym LocalProviderConfig = string
type_synonym Provider = string
type_synonym ProviderReferences = "(LocalProviderConfig \<times> Provider) list"

text \<open>The part of \<open>tfconfig.Module\<close> that the package reads.\<close>

record ProviderRequirement =
  Source :: string
  VersionConstraints :: "string list"

record tfconfig_Module =
  RequiredProviders :: "(string \<times> ProviderRequirement) list"

text \<open>
  Modelled from the spec: the handles of packages exec, schema and lang (absent). The
  toolchain handle has "setters for working directory, logger sink, execution-log path,
  and timeout"; the parser handle has "setters to bind a schema reader and a
  provider-reference table". A setter is a field update of the handle.
\<close>

record exec_Executor =
  execPath :: string
  workdir :: string
  execLogPath :: string
  timeout :: int

datatype schema_Storage = Storage (storageVersion: string)

record lang_Parser =
  parserVersion :: string
  schemaReader :: "schema_Storage option"
  providerReferences :: "ProviderReferences option"

definition SetWorkdir :: "string \<Rightarrow> exec_Executor \<Rightarrow> exec_Executor" where
  "SetWorkdir w tf = tf\<lparr>workdir := w\<rparr>"

definition SetExecLogPath :: "string \<Rightarrow> exec_Executor \<Rightarrow> exec_Executor" where
  "SetExecLogPath p tf = tf\<lparr>execLogPath := p\<rparr>"

definition SetTimeout :: "int \<Rightarrow> exec_Executor \<Rightarrow> exec_Executor" where
  "SetTimeout t tf = tf\<lparr>timeout := t\<rparr>"

definition SetSchemaReader :: "schema_Storage \<Rightarrow> lang_Parser \<Rightarrow> lang_Parser" where
  "SetSchemaReader ss p = p\<lparr>schemaReader := Some ss\<rparr>"

definition SetProviderReferences :: "ProviderReferences \<Rightarrow> lang_Parser \<Rightarrow> lang_Parser" where
  "SetProviderReferences refs p = p\<lparr>providerReferences := Some refs\<rparr>"

text \<open>
  Observations of one execution, kept beside the state: which pipeline step returned
  which error, and which slow collaborator was invoked. They are not fields of the Go
  struct; no function of the model reads them.
\<close>

datatype step =
    SUpdateModuleManifest
  | SDiscoverTerraformExecutor
  | SDiscoverTerraformVersion
  | SParseProviderReferences
  | SFindCompatibleLangParser
  | SFindCompatibleStateStorage
  | SUpdateSchemaCache

datatype event =
    Ran step "error option"
  | CalledVersion
  | CalledObtainSchemasForModule string

text \<open>
  The struct \<open>rootModule\<close>. The logger and the seven mutexes are left out: every
  operation of the model runs atomically. A \<open>context.Context\<close> is the number of its
  cancellation; \<open>cancelLoading\<close> holds the context whose \<open>CancelFunc\<close> is stored,
  \<open>loadingDone\<close> the context whose \<open>Done()\<close> channel is stored, and \<open>cancelled\<close>
  lists the contexts whose \<open>CancelFunc\<close> has been called. The three function-valued
  fields are nil (\<open>None\<close>) until \<open>NewRootModule\<close> sets them. \<open>cancelled\<close> and
  \<open>trace\<close> belong to the run-time, not to the struct.
\<close>

record rootModule =
  path :: string
  isLoading :: bool
  loadingDone :: "nat option"
  cancelLoading :: "nat option"
  loadErr :: "multierror option"
  moduleManifestFile :: "File option"
  moduleManifest :: "moduleManifest option"
  pluginLockFile :: "File option"
  newSchemaStorage :: "(string \<Rightarrow> error + schema_Storage) option"
  schemaStorage :: "schema_Storage option"
  schemaLoaded :: bool
  tfLoaded :: bool
  tfExec :: "exec_Executor option"
  tfNewExecutor :: "(string \<Rightarrow> exec_Executor) option"
  tfExecPath :: string
  tfExecTimeout :: int
  tfExecLogPath :: string
  tfDiscoFunc :: "(unit \<Rightarrow> error + string) option"
  tfDiscoErr :: "error option"
  tfVersion :: string
  tfVersionErr :: "error option"
  parserLoaded :: bool
  parser :: "lang_Parser option"
  providerRefs :: ProviderReferences
  cancelled :: "nat list"
  trace :: "event list"

text \<open>
  The collaborators that are not under src/, taken as parameters: helpers of the package
  (file lookup, manifest parsing, the predicates of a module record, path comparison),
  the standard library's \<open>filepath.Join\<close> and \<open>os.IsNotExist\<close>, and the external
  packages (discovery, toolchain, schema store, parser, declaration loader, address
  parsers). The Boolean argument of \<open>Version\<close> and \<open>ObtainSchemasForModule\<close> says
  whether the context passed to the call is already cancelled.
  \<open>LoadModuleFromFilesystem\<close> gives the module only: its diagnostics are logged and
  nothing else.
\<close>

record deps =
  pluginLockFilePaths :: "string \<Rightarrow> string list"
  findFile :: "string list \<Rightarrow> error + File"
  moduleManifestFilePath :: "string \<Rightarrow> string"
  newFile :: "string \<Rightarrow> error + File"
  IsNotExist :: "error \<Rightarrow> bool"
  ParseModuleManifestFromFile :: "string \<Rightarrow> error + moduleManifest"
  LookPath :: "unit \<Rightarrow> error + string"
  NewExecutor :: "string \<Rightarrow> exec_Executor"
  NewStorageForVersion :: "string \<Rightarrow> error + schema_Storage"
  Version :: "exec_Executor \<Rightarrow> bool \<Rightarrow> error + string"
  LoadModuleFromFilesystem :: "string \<Rightarrow> tfconfig_Module option"
  ParseProviderConfigCompactStr :: "string \<Rightarrow> error + LocalProviderConfig"
  ParseProviderSourceString :: "string \<Rightarrow> error + Provider"
  FindCompatibleParser :: "string \<Rightarrow> error + lang_Parser"
  ObtainSchemasForModule ::
    "schema_Storage \<Rightarrow> bool \<Rightarrow> exec_Executor option \<Rightarrow> string \<Rightarrow> error option"
  rootModuleDirFromFilePath :: "string \<Rightarrow> string"
  IsRoot :: "ModuleRecord \<Rightarrow> bool"
  IsExternal :: "ModuleRecord \<Rightarrow> bool"
  filepath_Join :: "string \<Rightarrow> string \<Rightarrow> string"
  pathEquals :: "string \<Rightarrow> string \<Rightarrow> bool"

section \<open>Construction and accessors\<close>

definition newRootModule :: "string \<Rightarrow> rootModule" where
  "newRootModule dir =
     \<lparr>path = dir, isLoading = False, loadingDone = None, cancelLoading = None,
      loadErr = None, moduleManifestFile = None, moduleManifest = None,
      pluginLockFile = None, newSchemaStorage = None, schemaStorage = None,
      schemaLoaded = False, tfLoaded = False, tfExec = None, tfNewExecutor = None,
      tfExecPath = [], tfExecTimeout = 0, tfExecLogPath = [], tfDiscoFunc = None,
      tfDiscoErr = None, tfVersion = [], tfVersionErr = None, parserLoaded = False,
      parser = None, providerRefs = [], cancelled = [], trace = []\<rparr>"

definition Path :: "rootModule \<Rightarrow> string" where
  "Path rm = path rm"

definition LoadError :: "rootModule \<Rightarrow> multierror option" where
  "LoadError rm = loadErr rm"

definition setLoadErr :: "multierror option \<Rightarrow> rootModule \<Rightarrow> rootModule" where
  "setLoadErr err rm = rm\<lparr>loadErr := err\<rparr>"

definition setLoadingState :: "bool \<Rightarrow> rootModule \<Rightarrow> rootModule" where
  "setLoadingState b rm = rm\<lparr>isLoading := b\<rparr>"

definition IsLoadingDone :: "rootModule \<Rightarrow> bool" where
  "IsLoadingDone rm = (\<not> isLoading rm)"

definition IsParserLoaded :: "rootModule \<Rightarrow> bool" where
  "IsParserLoaded rm = parserLoaded rm"

definition setParserLoaded :: "bool \<Rightarrow> rootModule \<Rightarrow> rootModule" where
  "setParserLoaded b rm = rm\<lparr>parserLoaded := b\<rparr>"

definition IsSchemaLoaded :: "rootModule \<Rightarrow> bool" where
  "IsSchemaLoaded rm = schemaLoaded rm"

definition setSchemaLoaded :: "bool \<Rightarrow> rootModule \<Rightarrow> rootModule" where
  "setSchemaLoaded b rm = rm\<lparr>schemaLoaded := b\<rparr>"

definition IsTerraformLoaded :: "rootModule \<Rightarrow> bool" where
  "IsTerraformLoaded rm = tfLoaded rm"

definition setTfLoaded :: "bool \<Rightarrow> rootModule \<Rightarrow> rootModule" where
  "setTfLoaded b rm = rm\<lparr>tfLoaded := b\<rparr>"

text \<open>
  \<open>Parser\<close> returns the Go pair \<open>(lang.Parser, error)\<close>; a nil parser is \<open>None\<close>, a
  nil error is \<open>None\<close>.
\<close>

definition Parser :: "rootModule \<Rightarrow> lang_Parser option \<times> error option" where
  "Parser rm =
     (if \<not> IsParserLoaded rm then (None, Some (ErrorString ''parser is not loaded yet''))
      else if parser rm = None then (None, Some (ErrorString ''no parser available''))
      else (parser rm, None))"

text \<open>The loop of \<open>ReferencesModulePath\<close> over the records of the manifest.\<close>

fun ReferencesModulePath_loop :: "deps \<Rightarrow> string \<Rightarrow> ModuleRecord list \<Rightarrow> string \<Rightarrow> bool" where
  "ReferencesModulePath_loop d rd [] p = False"
| "ReferencesModulePath_loop d rd (m # ms) p =
     (if IsRoot d m then ReferencesModulePath_loop d rd ms p
      else if IsExternal d m then ReferencesModulePath_loop d rd ms p
      else if pathEquals d (filepath_Join d rd (Dir m)) p then True
      else ReferencesModulePath_loop d rd ms p)"

definition ReferencesModulePath :: "deps \<Rightarrow> rootModule \<Rightarrow> string \<Rightarrow> bool" where
  "ReferencesModulePath d rm p =
     (case moduleManifest rm of
        None \<Rightarrow> False
      | Some mm \<Rightarrow> ReferencesModulePath_loop d (rootDir mm) (Records mm) p)"

section \<open>The load pipeline\<close>

text \<open>
  A call either returns or panics on a nil dereference; \<open>Panics\<close> carries the state in
  which the panic leaves the object, the deferred calls of the panicking function run.
\<close>

datatype 'a outcome = Panics rootModule | Returns 'a

definition called :: "event \<Rightarrow> rootModule \<Rightarrow> rootModule" where
  "called ev rm = rm\<lparr>trace := trace rm @ [ev]\<rparr>"

definition ran :: "step \<Rightarrow> rootModule \<times> error option \<Rightarrow> rootModule \<times> error option" where
  "ran st r = (case r of (rm, err) \<Rightarrow> (called (Ran st err) rm, err))"

definition ranP ::
  "step \<Rightarrow> (rootModule \<times> error option) outcome \<Rightarrow> (rootModule \<times> error option) outcome" where
  "ranP st out = (case out of Panics rm \<Rightarrow> Panics rm | Returns r \<Rightarrow> Returns (ran st r))"

definition ctxDone :: "nat \<Rightarrow> rootModule \<Rightarrow> bool" where
  "ctxDone ctx rm = (ctx \<in> set (cancelled rm))"

definition CancelLoading :: "rootModule \<Rightarrow> rootModule" where
  "CancelLoading rm =
     setLoadingState False
       (if \<not> IsLoadingDone rm then
          (case cancelLoading rm of
             None \<Rightarrow> rm
           | Some c \<Rightarrow> rm\<lparr>cancelled := c # cancelled rm\<rparr>)
        else rm)"

definition LoadingDone :: "rootModule \<Rightarrow> nat option" where
  "LoadingDone rm = loadingDone rm"

definition UpdateModuleManifest ::
  "deps \<Rightarrow> File option \<Rightarrow> rootModule \<Rightarrow> rootModule \<times> error option" where
  "UpdateModuleManifest d lockFile rm = ran SUpdateModuleManifest
     (case lockFile of
        None \<Rightarrow> (rm, None)
      | Some lf \<Rightarrow>
          (let rm1 = rm\<lparr>moduleManifestFile := Some lf\<rparr> in
           case ParseModuleManifestFromFile d (File_Path lf) of
             Inl err \<Rightarrow> (rm1, Some (Wrapped ''failed to update module manifest'' err))
           | Inr mm \<Rightarrow> (rm1\<lparr>moduleManifest := Some mm\<rparr>, None)))"

text \<open>
  \<open>discoverTerraformExecutor\<close> from \<open>tf := rm.tfNewExecutor(tfPath)\<close> on; the deferred
  \<open>setTfLoaded(true)\<close> runs on every way out.
\<close>

definition discoverTerraformExecutor_at ::
  "string \<Rightarrow> rootModule \<Rightarrow> (rootModule \<times> error option) outcome" where
  "discoverTerraformExecutor_at tfPath rm =
     (case tfNewExecutor rm of
        None \<Rightarrow> Panics (setTfLoaded True rm)
      | Some new \<Rightarrow>
          (let tf = SetWorkdir (path rm) (new tfPath);
               tf = (if tfExecLogPath rm \<noteq> [] then SetExecLogPath (tfExecLogPath rm) tf else tf);
               tf = (if tfExecTimeout rm \<noteq> 0 then SetTimeout (tfExecTimeout rm) tf else tf)
           in Returns (setTfLoaded True (rm\<lparr>tfExec := Some tf\<rparr>), None)))"

definition discoverTerraformExecutor ::
  "nat \<Rightarrow> rootModule \<Rightarrow> (rootModule \<times> error option) outcome" where
  "discoverTerraformExecutor ctx rm = ranP SDiscoverTerraformExecutor
     (if tfExecPath rm = [] then
        (case tfDiscoFunc rm of
           None \<Rightarrow> Panics (setTfLoaded True rm)
         | Some disco \<Rightarrow>
             (case disco () of
                Inl err \<Rightarrow> Returns (setTfLoaded True rm, Some err)
              | Inr tfPath \<Rightarrow> discoverTerraformExecutor_at tfPath rm))
      else discoverTerraformExecutor_at (tfExecPath rm) rm)"

definition discoverTerraformVersion ::
  "deps \<Rightarrow> nat \<Rightarrow> rootModule \<Rightarrow> rootModule \<times> error option" where
  "discoverTerraformVersion d ctx rm = ran SDiscoverTerraformVersion
     (case tfExec rm of
        None \<Rightarrow> (rm, Some (ErrorString ''no terraform executor - unable to read version''))
      | Some tf \<Rightarrow>
          (let rm1 = called CalledVersion rm in
           case Version d tf (ctxDone ctx rm1) of
             Inl err \<Rightarrow> (rm1, Some err)
           | Inr version \<Rightarrow> (rm1\<lparr>tfVersion := version\<rparr>, None)))"

definition findCompatibleStateStorage :: "rootModule \<Rightarrow> (rootModule \<times> error option) outcome" where
  "findCompatibleStateStorage rm = ranP SFindCompatibleStateStorage
     (if tfVersion rm = [] then
        Returns (rm, Some (ErrorString ''unknown terraform version - unable to find state storage''))
      else
        (case newSchemaStorage rm of
           None \<Rightarrow> Panics rm
         | Some new \<Rightarrow>
             (case new (tfVersion rm) of
                Inl err \<Rightarrow> Returns (rm, Some err)
              | Inr ss \<Rightarrow>
                  (let rm1 = rm\<lparr>schemaStorage := Some ss\<rparr> in
                   if IsParserLoaded rm1 then
                     (case parser rm1 of
                        None \<Rightarrow> Panics rm1
                      | Some p \<Rightarrow> Returns (rm1\<lparr>parser := Some (SetSchemaReader ss p)\<rparr>, None))
                   else Returns (rm1, None)))))"

text \<open>The deferred \<open>setParserLoaded(true)\<close> runs on every way out.\<close>

definition findCompatibleLangParser :: "deps \<Rightarrow> rootModule \<Rightarrow> rootModule \<times> error option" where
  "findCompatibleLangParser d rm = ran SFindCompatibleLangParser
     (if tfVersion rm = [] then
        (setParserLoaded True rm,
         Some (ErrorString ''unknown terraform version - unable to find parser''))
      else
        (case FindCompatibleParser d (tfVersion rm) of
           Inl err \<Rightarrow> (setParserLoaded True rm, Some err)
         | Inr p \<Rightarrow> (setParserLoaded True (rm\<lparr>parser := Some p\<rparr>), None)))"

text \<open>
  The loop of \<open>ParseProviderReferences\<close> over \<open>mod.RequiredProviders\<close>, a Go map: the
  list gives the entries in the order in which the run-time happens to visit them, and
  \<open>refs\<close> is the table built so far.
\<close>

fun ParseProviderReferences_loop ::
  "deps \<Rightarrow> (string \<times> ProviderRequirement) list \<Rightarrow> ProviderReferences
     \<Rightarrow> error + ProviderReferences" where
  "ParseProviderReferences_loop d [] refs = Inr refs"
| "ParseProviderReferences_loop d ((name, rp) # rest) refs =
     (if name = [] then ParseProviderReferences_loop d rest refs
      else
        (case ParseProviderConfigCompactStr d name of
           Inl err \<Rightarrow> Inl err
         | Inr lName \<Rightarrow>
             (if Source rp \<noteq> [] then
                (case ParseProviderSourceString d (Source rp) of
                   Inl err \<Rightarrow> Inl err
                 | Inr pAddr \<Rightarrow>
                     ParseProviderReferences_loop d rest (AList.update lName pAddr refs))
              else ParseProviderReferences_loop d rest refs)))"

definition ParseProviderReferences ::
  "deps \<Rightarrow> rootModule \<Rightarrow> (rootModule \<times> error option) outcome" where
  "ParseProviderReferences d rm = ranP SParseProviderReferences
     (case LoadModuleFromFilesystem d (Path rm) of
        None \<Rightarrow> Returns (rm, None)
      | Some md \<Rightarrow>
          (case ParseProviderReferences_loop d (RequiredProviders md) [] of
             Inl err \<Rightarrow> Returns (rm, Some err)
           | Inr refs \<Rightarrow>
               (let rm1 = rm\<lparr>providerRefs := refs\<rparr> in
                if IsParserLoaded rm1 then
                  (case parser rm1 of
                     None \<Rightarrow> Panics rm1
                   | Some p \<Rightarrow>
                       Returns
                         (rm1\<lparr>parser := Some (SetProviderReferences (providerRefs rm1) p)\<rparr>,
                          None))
                else Returns (rm1, None))))"

text \<open>The deferred \<open>setSchemaLoaded(true)\<close> is registered after the first check only.\<close>

definition UpdateSchemaCache ::
  "deps \<Rightarrow> nat \<Rightarrow> File option \<Rightarrow> rootModule \<Rightarrow> rootModule \<times> error option" where
  "UpdateSchemaCache d ctx lockFile rm = ran SUpdateSchemaCache
     (if \<not> IsTerraformLoaded rm then
        (rm, Some (ErrorString
           ''cannot update schema as terraform executor is not available yet''))
      else
        (case lockFile of
           None \<Rightarrow> (setSchemaLoaded True rm, None)
         | Some lf \<Rightarrow>
             (case schemaStorage rm of
                None \<Rightarrow>
                  (setSchemaLoaded True rm,
                   Some (ErrorString ''cannot update schema as schema cache is not available''))
              | Some ss \<Rightarrow>
                  (let rm1 = rm\<lparr>pluginLockFile := Some lf\<rparr>;
                       dir = rootModuleDirFromFilePath d (File_Path lf);
                       rm2 = called (CalledObtainSchemasForModule dir) rm1
                   in (setSchemaLoaded True rm2,
                       ObtainSchemasForModule d ss (ctxDone ctx rm2) (tfExec rm2) dir)))))"

text \<open>
  \<open>load\<close>: the seven calls in the order of the source, each error appended to the
  accumulator, and the deferred \<open>CancelLoading\<close> on the way out, also when a step
  panics.
\<close>

definition load :: "deps \<Rightarrow> nat \<Rightarrow> rootModule \<Rightarrow> (rootModule \<times> multierror option) outcome" where
  "load d ctx rm0 =
     (let errs = [];
          rm = setLoadingState True rm0;
          (rm, err) = UpdateModuleManifest d (moduleManifestFile rm) rm;
          errs = Append errs err
      in case discoverTerraformExecutor ctx rm of
           Panics rm \<Rightarrow> Panics (CancelLoading rm)
         | Returns (rm, err) \<Rightarrow>
      (let rm = rm\<lparr>tfDiscoErr := err\<rparr>;
           errs = Append errs err;
           (rm, err) = discoverTerraformVersion d ctx rm;
           rm = rm\<lparr>tfVersionErr := err\<rparr>;
           errs = Append errs err
       in case ParseProviderReferences d rm of
            Panics rm \<Rightarrow> Panics (CancelLoading rm)
          | Returns (rm, err) \<Rightarrow>
      (let errs = Append errs err;
           (rm, err) = findCompatibleLangParser d rm;
           errs = Append errs err
       in case findCompatibleStateStorage rm of
            Panics rm \<Rightarrow> Panics (CancelLoading rm)
          | Returns (rm, err) \<Rightarrow>
      (let errs = Append errs err;
           (rm, err) = UpdateSchemaCache d ctx (pluginLockFile rm) rm;
           errs = Append errs err
       in Returns (CancelLoading rm, ErrorOrNil errs)))))"

section \<open>Construction\<close>

definition discoverPluginCache :: "deps \<Rightarrow> string \<Rightarrow> rootModule \<Rightarrow> rootModule \<times> error option" where
  "discoverPluginCache d dir rm =
     (case findFile d (pluginLockFilePaths d dir) of
        Inl err \<Rightarrow>
          (if IsNotExist d err then (rm, None)
           else (rm, Some (Wrapped ''unable to calculate hash'' err)))
      | Inr lf \<Rightarrow> (rm\<lparr>pluginLockFile := Some lf\<rparr>, None))"

definition discoverModuleCache :: "deps \<Rightarrow> string \<Rightarrow> rootModule \<Rightarrow> rootModule \<times> error option" where
  "discoverModuleCache d dir rm =
     (case newFile d (moduleManifestFilePath d dir) of
        Inl err \<Rightarrow>
          (if IsNotExist d err then (rm, None)
           else (rm, Some (Wrapped ''unable to calculate hash'' err)))
      | Inr lf \<Rightarrow> (rm\<lparr>moduleManifestFile := Some lf\<rparr>, None))"

definition discoverCaches ::
  "deps \<Rightarrow> nat \<Rightarrow> string \<Rightarrow> rootModule \<Rightarrow> rootModule \<times> multierror option" where
  "discoverCaches d ctx dir rm0 =
     (let errs = [];
          (rm, err) = discoverPluginCache d dir rm0;
          errs = (if err \<noteq> None then Append errs err else errs);
          (rm, err) = discoverModuleCache d dir rm;
          errs = (if err \<noteq> None then Append errs err else errs)
      in (rm, ErrorOrNil errs))"

definition NewRootModule ::
  "deps \<Rightarrow> nat \<Rightarrow> string \<Rightarrow> (rootModule \<times> multierror option) outcome" where
  "NewRootModule d ctx dir =
     (let rm = newRootModule dir;
          rm = rm\<lparr>tfDiscoFunc := Some (LookPath d)\<rparr>;
          rm = rm\<lparr>tfNewExecutor := Some (NewExecutor d)\<rparr>;
          rm = rm\<lparr>newSchemaStorage := Some (NewStorageForVersion d)\<rparr>;
          (rm, err) = discoverCaches d ctx dir rm
      in if err \<noteq> None then Returns (rm, err) else load d ctx rm)"

section \<open>Asynchronous loading\<close>

text \<open>
  \<open>StartLoading\<close> starts a goroutine that runs \<open>rm.setLoadErr(rm.load(ctx))\<close>. The
  goroutine is modelled by the point it has reached in \<open>load\<close>, the accumulator
  \<open>errs\<close> of \<open>load\<close> and the value \<open>load\<close> returned. Between two points the
  scheduler may run any other caller or goroutine; a step of the pipeline is taken as
  one atomic action.
\<close>

datatype point = Entry | Before step | Exit | Store | Finished

record goroutine =
  g_ctx :: nat
  g_point :: point
  g_errs :: multierror
  g_ret :: "multierror option"

fun next_step :: "step \<Rightarrow> point" where
  "next_step SUpdateModuleManifest = Before SDiscoverTerraformExecutor"
| "next_step SDiscoverTerraformExecutor = Before SDiscoverTerraformVersion"
| "next_step SDiscoverTerraformVersion = Before SParseProviderReferences"
| "next_step SParseProviderReferences = Before SFindCompatibleLangParser"
| "next_step SFindCompatibleLangParser = Before SFindCompatibleStateStorage"
| "next_step SFindCompatibleStateStorage = Before SUpdateSchemaCache"
| "next_step SUpdateSchemaCache = Exit"

text \<open>One step of \<open>load\<close> with the assignments that follow the call in \<open>load\<close>.\<close>

fun load_step ::
  "deps \<Rightarrow> nat \<Rightarrow> step \<Rightarrow> rootModule \<Rightarrow> (rootModule \<times> error option) outcome" where
  "load_step d ctx SUpdateModuleManifest rm =
     Returns (UpdateModuleManifest d (moduleManifestFile rm) rm)"
| "load_step d ctx SDiscoverTerraformExecutor rm =
     (case discoverTerraformExecutor ctx rm of
        Panics rm1 \<Rightarrow> Panics rm1
      | Returns (rm1, err) \<Rightarrow> Returns (rm1\<lparr>tfDiscoErr := err\<rparr>, err))"
| "load_step d ctx SDiscoverTerraformVersion rm =
     (case discoverTerraformVersion d ctx rm of
        (rm1, err) \<Rightarrow> Returns (rm1\<lparr>tfVersionErr := err\<rparr>, err))"
| "load_step d ctx SParseProviderReferences rm = ParseProviderReferences d rm"
| "load_step d ctx SFindCompatibleLangParser rm = Returns (findCompatibleLangParser d rm)"
| "load_step d ctx SFindCompatibleStateStorage rm = findCompatibleStateStorage rm"
| "load_step d ctx SUpdateSchemaCache rm =
     Returns (UpdateSchemaCache d ctx (pluginLockFile rm) rm)"

definition goroutine_step ::
  "deps \<Rightarrow> goroutine \<Rightarrow> rootModule \<Rightarrow> (rootModule \<times> goroutine) outcome" where
  "goroutine_step d g rm =
     (case g_point g of
        Entry \<Rightarrow>
          Returns (setLoadingState True rm, g\<lparr>g_point := Before SUpdateModuleManifest\<rparr>)
      | Before st \<Rightarrow>
          (case load_step d (g_ctx g) st rm of
             Panics rm1 \<Rightarrow> Panics (CancelLoading rm1)
           | Returns (rm1, err) \<Rightarrow>
               Returns (rm1, g\<lparr>g_point := next_step st, g_errs := Append (g_errs g) err\<rparr>))
      | Exit \<Rightarrow>
          Returns (CancelLoading rm, g\<lparr>g_point := Store, g_ret := ErrorOrNil (g_errs g)\<rparr>)
      | Store \<Rightarrow> Returns (setLoadErr (g_ret g) rm, g\<lparr>g_point := Finished\<rparr>)
      | Finished \<Rightarrow> Returns (rm, g))"

fun run_goroutine ::
  "deps \<Rightarrow> nat \<Rightarrow> goroutine \<Rightarrow> rootModule \<Rightarrow> (rootModule \<times> goroutine) outcome" where
  "run_goroutine d 0 g rm = Returns (rm, g)"
| "run_goroutine d (Suc n) g rm =
     (case goroutine_step d g rm of
        Panics rm1 \<Rightarrow> Panics rm1
      | Returns (rm1, g1) \<Rightarrow> run_goroutine d n g1 rm1)"

text \<open>
  The object with its goroutines; \<open>returned\<close> lists what the calls of \<open>StartLoading\<close>
  returned, in order.
\<close>

record system =
  root :: rootModule
  procs :: "goroutine list"
  nextCtx :: nat
  returned :: "error option list"

definition StartLoading :: "system \<Rightarrow> system \<times> error option" where
  "StartLoading s =
     (if \<not> IsLoadingDone (root s) then
        (s, Some (ErrorString ''root module is already being loaded''))
      else
        (let ctx = nextCtx s;
             rm = (root s)\<lparr>cancelLoading := Some ctx\<rparr>;
             rm = rm\<lparr>loadingDone := Some ctx\<rparr>;
             g = \<lparr>g_ctx = ctx, g_point = Entry, g_errs = [], g_ret = None\<rparr>
         in (s\<lparr>root := rm, procs := procs s @ [g], nextCtx := Suc ctx\<rparr>, None)))"

datatype action = CallStartLoading | CallCancelLoading | Run nat

fun system_step :: "deps \<Rightarrow> action \<Rightarrow> system \<Rightarrow> system outcome" where
  "system_step d CallStartLoading s =
     (case StartLoading s of (s1, err) \<Rightarrow> Returns (s1\<lparr>returned := returned s1 @ [err]\<rparr>))"
| "system_step d CallCancelLoading s = Returns (s\<lparr>root := CancelLoading (root s)\<rparr>)"
| "system_step d (Run i) s =
     (if i < length (procs s) then
        (case goroutine_step d (procs s ! i) (root s) of
           Panics rm \<Rightarrow> Panics rm
         | Returns (rm, g) \<Rightarrow> Returns (s\<lparr>root := rm, procs := (procs s)[i := g]\<rparr>))
      else Returns s)"

fun run :: "deps \<Rightarrow> action list \<Rightarrow> system \<Rightarrow> system outcome" where
  "run d [] s = Returns s"
| "run d (a # as) s =
     (case system_step d a s of Panics rm \<Rightarrow> Panics rm | Returns s1 \<Rightarrow> run d as s1)"

definition in_pipeline :: "goroutine \<Rightarrow> bool" where
  "in_pipeline g = (g_point g \<noteq> Store \<and> g_point g \<noteq> Finished)"

definition active_pipelines :: "system \<Rightarrow> nat" where
  "active_pipelines s = length (filter in_pipeline (procs s))"

definition system_of :: "rootModule \<Rightarrow> system" where
  "system_of rm = \<lparr>root = rm, procs = [], nextCtx = 1, returned = []\<rparr>"

section \<open>Reading a trace\<close>

fun steps_ran :: "event list \<Rightarrow> step list" where
  "steps_ran [] = []"
| "steps_ran (Ran st err # evs) = st # steps_ran evs"
| "steps_ran (ev # evs) = steps_ran evs"

fun step_errors :: "event list \<Rightarrow> error list" where
  "step_errors [] = []"
| "step_errors (Ran st (Some e) # evs) = e # step_errors evs"
| "step_errors (ev # evs) = step_errors evs"

definition pipeline :: "step list" where
  "pipeline =
     [SUpdateModuleManifest, SDiscoverTerraformExecutor, SDiscoverTerraformVersion,
      SParseProviderReferences, SFindCompatibleLangParser, SFindCompatibleStateStorage,
      SUpdateSchemaCache]"

fun remaining :: "point \<Rightarrow> step list" where
  "remaining Entry = pipeline"
| "remaining (Before SUpdateModuleManifest) = pipeline"
| "remaining (Before SDiscoverTerraformExecutor) = drop 1 pipeline"
| "remaining (Before SDiscoverTerraformVersion) = drop 2 pipeline"
| "remaining (Before SParseProviderReferences) = drop 3 pipeline"
| "remaining (Before SFindCompatibleLangParser) = drop 4 pipeline"
| "remaining (Before SFindCompatibleStateStorage) = drop 5 pipeline"
| "remaining (Before SUpdateSchemaCache) = drop 6 pipeline"
| "remaining Exit = []"
| "remaining Store = []"
| "remaining Finished = []"

section \<open>Two environments\<close>

text \<open>
  A directory without plugin lock file and without module manifest, a toolchain of
  version 0.12.0 that the parser and the schema store support, and one required
  provider; and the same directory on a machine where no toolchain is found.
\<close>

definition env_ok :: deps where
  "env_ok =
     \<lparr>pluginLockFilePaths = (\<lambda>dir. [dir @ ''/.terraform/plugins/selections.json'']),
      findFile = (\<lambda>ps. Inl (ErrorString ''file does not exist'')),
      moduleManifestFilePath = (\<lambda>dir. dir @ ''/.terraform/modules/modules.json''),
      newFile = (\<lambda>p. Inl (ErrorString ''file does not exist'')),
      IsNotExist = (\<lambda>e. e = ErrorString ''file does not exist''),
      ParseModuleManifestFromFile = (\<lambda>p. Inl (ErrorString ''file does not exist'')),
      LookPath = (\<lambda>u. Inr ''/usr/bin/terraform''),
      NewExecutor = (\<lambda>p. \<lparr>execPath = p, workdir = [], execLogPath = [], timeout = 0\<rparr>),
      NewStorageForVersion = (\<lambda>v. if v = ''0.12.0'' then Inr (Storage v)
         else Inl (ErrorString ''no compatible schema storage'')),
      Version = (\<lambda>tf done. if done then Inl (ErrorString ''context canceled'')
         else Inr ''0.12.0''),
      LoadModuleFromFilesystem = (\<lambda>p. Some \<lparr>RequiredProviders =
         [(''aws'', \<lparr>Source = ''hashicorp/aws'', VersionConstraints = []\<rparr>)]\<rparr>),
      ParseProviderConfigCompactStr = (\<lambda>n. Inr n),
      ParseProviderSourceString = (\<lambda>src. Inr (''registry.terraform.io/'' @ src)),
      FindCompatibleParser = (\<lambda>v. if v = ''0.12.0''
         then Inr \<lparr>parserVersion = v, schemaReader = None, providerReferences = None\<rparr>
         else Inl (ErrorString ''no compatible parser'')),
      ObtainSchemasForModule = (\<lambda>ss done tf dir.
         if done then Some (ErrorString ''context canceled'') else None),
      rootModuleDirFromFilePath = (\<lambda>p. take (length p - 35) p),
      IsRoot = (\<lambda>m. Key m = []),
      IsExternal = (\<lambda>m. take 18 (Dir m) = ''.terraform/modules''),
      filepath_Join = (\<lambda>a b. a @ ''/'' @ b),
      pathEquals = (\<lambda>a b. a = b)\<rparr>"

definition env_no_toolchain :: deps where
  "env_no_toolchain = env_ok\<lparr>LookPath := (\<lambda>u. Inl (ErrorString ''terraform not found''))\<rparr>"

definition bad_module :: tfconfig_Module where
  "bad_module = \<lparr>RequiredProviders =
     [([], \<lparr>Source = [], VersionConstraints = []\<rparr>),
      (''aws'', \<lparr>Source = ''hashicorp/aws'', VersionConstraints = []\<rparr>),
      (''random'', \<lparr>Source = ''not a source'', VersionConstraints = []\<rparr>)]\<rparr>"

text \<open>The first environment after an edit that gives one provider a malformed source.\<close>

definition env_bad_source :: deps where
  "env_bad_source = env_ok
     \<lparr>LoadModuleFromFilesystem := (\<lambda>p. Some bad_module),
      ParseProviderSourceString := (\<lambda>src.
         if src = ''not a source'' then Inl (ErrorString ''invalid provider source string'')
         else Inr (''registry.terraform.io/'' @ src))\<rparr>"

text \<open>The objects that \<open>NewRootModule\<close> builds for the directory /w in the two environments.\<close>

definition built :: "(rootModule \<times> multierror option) outcome \<Rightarrow> rootModule" where
  "built out = (case out of Panics rm \<Rightarrow> rm | Returns (rm, r) \<Rightarrow> rm)"

definition loaded_ok :: rootModule where
  "loaded_ok = built (NewRootModule env_ok 0 ''/w'')"

definition loaded_no_toolchain :: rootModule where
  "loaded_no_toolchain = built (NewRootModule env_no_toolchain 0 ''/w'')"

definition panics :: "'a outcome \<Rightarrow> bool" where
  "panics out = (case out of Panics rm \<Rightarrow> True | Returns r \<Rightarrow> False)"

text \<open>A manifest with the root record, a module fetched into the cache and a local child.\<close>

definition manifest_w :: moduleManifest where
  "manifest_w = \<lparr>rootDir = ''/w'', Records =
     [\<lparr>Key = [], SourceAddr = [], Dir = ''.''\<rparr>,
      \<lparr>Key = ''vpc'', SourceAddr = ''terraform-aws-modules/vpc/aws'',
        Dir = ''.terraform/modules/vpc''\<rparr>,
      \<lparr>Key = ''child'', SourceAddr = ''./child'', Dir = ''child''\<rparr>]\<rparr>"

text \<open>
  A named required-provider declaration is malformed when its local name does not parse
  or when it has a source string that does not parse.
\<close>

definition malformed :: "deps \<Rightarrow> string \<times> ProviderRequirement \<Rightarrow> bool" where
  "malformed d x =
     (case x of (name, rp) \<Rightarrow>
        name \<noteq> [] \<and>
        (case ParseProviderConfigCompactStr d name of
           Inl err \<Rightarrow> True
         | Inr lName \<Rightarrow>
             Source rp \<noteq> [] \<and>
             (case ParseProviderSourceString d (Source rp) of
                Inl err \<Rightarrow> True
              | Inr pAddr \<Rightarrow> False)))"

text \<open>
  The same directory with a toolchain of a version that neither the parser nor the
  schema store supports, and with a plugin directory that cannot be read.
\<close>

definition env_old_toolchain :: deps where
  "env_old_toolchain = env_ok\<lparr>Version := (\<lambda>tf done. Inr ''0.11.14'')\<rparr>"

definition env_unreadable :: deps where
  "env_unreadable = env_ok\<lparr>findFile := (\<lambda>ps. Inl (ErrorString ''permission denied''))\<rparr>"

definition loaded_old_toolchain :: rootModule where
  "loaded_old_toolchain = built (NewRootModule env_old_toolchain 0 ''/w'')"

definition not_loaded :: rootModule where
  "not_loaded = built (NewRootModule env_unreadable 0 ''/w'')"

text \<open>The object of \<open>NewRootModule\<close> before the caches are looked up.\<close>

definition start :: "deps \<Rightarrow> string \<Rightarrow> rootModule" where
  "start d dir = (newRootModule dir)
     \<lparr>tfDiscoFunc := Some (LookPath d), tfNewExecutor := Some (NewExecutor d),
      newSchemaStorage := Some (NewStorageForVersion d)\<rparr>"

text \<open>What a call gave, and what the trace has gained since an earlier state.\<close>

definition result :: "'a outcome \<Rightarrow> 'a option" where
  "result out = (case out of Panics rm \<Rightarrow> None | Returns r \<Rightarrow> Some r)"

definition panic_state :: "'a outcome \<Rightarrow> rootModule option" where
  "panic_state out = (case out of Panics rm \<Rightarrow> Some rm | Returns r \<Rightarrow> None)"

definition events_since :: "rootModule \<Rightarrow> rootModule \<Rightarrow> event list" where
  "events_since rm0 rm = drop (length (trace rm0)) (trace rm)"

definition steps_since :: "rootModule \<Rightarrow> rootModule \<Rightarrow> step list" where
  "steps_since rm0 rm = steps_ran (events_since rm0 rm)"

text \<open>The steps of \<open>load\<close> as a list, run from a state and an accumulator.\<close>

fun run_steps ::
  "deps \<Rightarrow> nat \<Rightarrow> step list \<Rightarrow> rootModule \<times> multierror
     \<Rightarrow> (rootModule \<times> multierror) outcome" where
  "run_steps d ctx [] (rm, errs) = Returns (rm, errs)"
| "run_steps d ctx (st # sts) (rm, errs) =
     (case load_step d ctx st rm of
        Panics rm1 \<Rightarrow> Panics rm1
      | Returns (rm1, err) \<Rightarrow> run_steps d ctx sts (rm1, Append errs err))"

definition fresh_goroutine :: "nat \<Rightarrow> goroutine" where
  "fresh_goroutine ctx = \<lparr>g_ctx = ctx, g_point = Entry, g_errs = [], g_ret = None\<rparr>"

text \<open>
  A reload in the first environment, stopped by the scheduler after the first step of the
  pipeline.
\<close>

definition inflight :: system where
  "inflight =
     (case run env_ok [CallStartLoading, Run 0, Run 0] (system_of loaded_ok) of
        Panics rm \<Rightarrow> system_of rm
      | Returns s \<Rightarrow> s)"

text \<open>
  A reload whose version query fails; and a toolchain upgrade between two loads, with
  factories that support both versions: \<open>before_step_6\<close> is the reload after the
  upgrade, its first five steps done.
\<close>

definition env_version_fails :: deps where
  "env_version_fails = env_ok\<lparr>Version := (\<lambda>tf done. Inl (ErrorString ''exit status 1''))\<rparr>"

definition env_before_upgrade :: deps where
  "env_before_upgrade = env_ok
     \<lparr>NewStorageForVersion := (\<lambda>v. Inr (Storage v)),
      FindCompatibleParser := (\<lambda>v.
         Inr \<lparr>parserVersion = v, schemaReader = None, providerReferences = None\<rparr>)\<rparr>"

definition env_after_upgrade :: deps where
  "env_after_upgrade = env_before_upgrade\<lparr>Version := (\<lambda>tf done. Inr ''0.13.0'')\<rparr>"

definition loaded_before_upgrade :: rootModule where
  "loaded_before_upgrade = built (NewRootModule env_before_upgrade 0 ''/w'')"

definition before_step_6 :: rootModule where
  "before_step_6 =
     (case run_steps env_after_upgrade 1 (take 5 pipeline)
             (setLoadingState True loaded_before_upgrade, []) of
        Panics rm \<Rightarrow> rm
      | Returns (rm, errs) \<Rightarrow> rm)"

section \<open>Unfolding the model\<close>

named_theorems model_defs

lemmas [model_defs] = Append_def ErrorOrNil_def SetWorkdir_def SetExecLogPath_def
  SetTimeout_def SetSchemaReader_def SetProviderReferences_def newRootModule_def Path_def
  LoadError_def setLoadErr_def setLoadingState_def IsLoadingDone_def IsParserLoaded_def
  setParserLoaded_def IsSchemaLoaded_def setSchemaLoaded_def IsTerraformLoaded_def
  setTfLoaded_def called_def ran_def ranP_def ctxDone_def CancelLoading_def
  UpdateModuleManifest_def discoverTerraformExecutor_at_def discoverTerraformExecutor_def
  discoverTerraformVersion_def findCompatibleStateStorage_def findCompatibleLangParser_def
  ParseProviderReferences_def UpdateSchemaCache_def load_def discoverPluginCache_def
  discoverModuleCache_def discoverCaches_def NewRootModule_def env_ok_def
  env_no_toolchain_def env_bad_source_def env_old_toolchain_def env_unreadable_def
  bad_module_def built_def loaded_ok_def loaded_no_toolchain_def loaded_old_toolchain_def
  not_loaded_def env_version_fails_def env_before_upgrade_def env_after_upgrade_def
  loaded_before_upgrade_def

named_theorems run_defs

lemmas [run_defs] = goroutine_step_def StartLoading_def system_of_def result_def panics_def
  panic_state_def events_since_def steps_since_def active_pipelines_def in_pipeline_def
  pipeline_def
  fresh_goroutine_def inflight_def before_step_6_def

section \<open>The parser accessor\<close>

text \<open>
  C7. \<open>Parser\<close> called while the parser-loaded flag is false returns the error "parser
  is not loaded yet"; called while the flag is set and no parser is installed it returns
  the error "no parser available"; it never returns a nil parser together with a nil
  error.
\<close>

theorem Parser_never_nil_success:
  "(\<not> IsParserLoaded rm \<longrightarrow> Parser rm = (None, Some (ErrorString ''parser is not loaded yet'')))
   \<and> (IsParserLoaded rm \<and> parser rm = None \<longrightarrow>
        Parser rm = (None, Some (ErrorString ''no parser available'')))
   \<and> Parser rm \<noteq> (None, None)"
  by (simp add: Parser_def)

theorem Parser_never_nil_success_witness:
  "\<not> IsParserLoaded (newRootModule ''/w'')
   \<and> Parser (newRootModule ''/w'') = (None, Some (ErrorString ''parser is not loaded yet''))
   \<and> IsParserLoaded loaded_no_toolchain \<and> parser loaded_no_toolchain = None
   \<and> Parser loaded_no_toolchain = (None, Some (ErrorString ''no parser available''))"
proof -
  have a: "\<not> IsParserLoaded (newRootModule ''/w'')"
    by (simp add: IsParserLoaded_def newRootModule_def)
  have b: "IsParserLoaded loaded_no_toolchain \<and> parser loaded_no_toolchain = None"
    by (simp add: model_defs)
  show ?thesis
    using a b Parser_never_nil_success [of "newRootModule ''/w''"]
      Parser_never_nil_success [of loaded_no_toolchain]
    by simp
qed

section \<open>Paths of local child modules\<close>

lemma ReferencesModulePath_loop_iff:
  "ReferencesModulePath_loop d rd ms p \<longleftrightarrow>
     (\<exists>m\<in>set ms. \<not> IsRoot d m \<and> \<not> IsExternal d m \<and>
        pathEquals d (filepath_Join d rd (Dir m)) p)"
  by (induction ms) auto

text \<open>
  C8. \<open>ReferencesModulePath P\<close> is true exactly when a manifest is loaded and
  \<open>pathEquals\<close> holds between \<open>P\<close> and the join of the manifest's root directory with
  the directory of some record that is neither the root record nor an external one.
\<close>

theorem ReferencesModulePath_iff:
  "ReferencesModulePath d rm P \<longleftrightarrow>
     (\<exists>mm. moduleManifest rm = Some mm \<and>
        (\<exists>m\<in>set (Records mm). \<not> IsRoot d m \<and> \<not> IsExternal d m \<and>
           pathEquals d (filepath_Join d (rootDir mm) (Dir m)) P))"
  by (cases "moduleManifest rm")
     (simp_all add: ReferencesModulePath_def ReferencesModulePath_loop_iff)

theorem ReferencesModulePath_iff_witness:
  "ReferencesModulePath env_ok
     ((newRootModule ''/w'')\<lparr>moduleManifest := Some manifest_w\<rparr>) ''/w/child''
   \<and> \<not> ReferencesModulePath env_ok
       ((newRootModule ''/w'')\<lparr>moduleManifest := Some manifest_w\<rparr>) ''/w/.''
   \<and> \<not> ReferencesModulePath env_ok
       ((newRootModule ''/w'')\<lparr>moduleManifest := Some manifest_w\<rparr>) ''/w/.terraform/modules/vpc''
   \<and> \<not> ReferencesModulePath env_ok (newRootModule ''/w'') ''/w/child''"
  using
    ReferencesModulePath_iff [of env_ok
      "(newRootModule ''/w'')\<lparr>moduleManifest := Some manifest_w\<rparr>" "''/w/child''"]
    ReferencesModulePath_iff [of env_ok
      "(newRootModule ''/w'')\<lparr>moduleManifest := Some manifest_w\<rparr>" "''/w/.''"]
    ReferencesModulePath_iff [of env_ok
      "(newRootModule ''/w'')\<lparr>moduleManifest := Some manifest_w\<rparr>"
      "''/w/.terraform/modules/vpc''"]
    ReferencesModulePath_iff [of env_ok "newRootModule ''/w''" "''/w/child''"]
  by (simp add: manifest_w_def env_ok_def newRootModule_def)

section \<open>Provider references\<close>

lemma ParseProviderReferences_loop_fails_iff:
  "(\<exists>err. ParseProviderReferences_loop d xs refs = Inl err) \<longleftrightarrow> (\<exists>x\<in>set xs. malformed d x)"
  by (induction d xs refs rule: ParseProviderReferences_loop.induct)
     (auto simp: malformed_def split: sum.splits)

lemma ParseProviderReferences_cases:
  "ParseProviderReferences d rm =
     (case LoadModuleFromFilesystem d (Path rm) of
        None \<Rightarrow> Returns (called (Ran SParseProviderReferences None) rm, None)
      | Some md \<Rightarrow>
          (case ParseProviderReferences_loop d (RequiredProviders md) [] of
             Inl err \<Rightarrow> Returns (called (Ran SParseProviderReferences (Some err)) rm, Some err)
           | Inr refs \<Rightarrow>
               (if parserLoaded rm then
                  (case parser rm of
                     None \<Rightarrow> Panics (rm\<lparr>providerRefs := refs\<rparr>)
                   | Some p \<Rightarrow>
                       Returns (called (Ran SParseProviderReferences None)
                         (rm\<lparr>providerRefs := refs,
                              parser := Some (SetProviderReferences refs p)\<rparr>), None))
                else Returns (called (Ran SParseProviderReferences None)
                        (rm\<lparr>providerRefs := refs\<rparr>), None))))"
  by (simp add: ParseProviderReferences_def ranP_def ran_def IsParserLoaded_def Let_def
      split: option.splits sum.splits)

text \<open>
  C9. When \<open>ParseProviderReferences\<close> returns an error, the provider reference table
  (and the parser) are as before the call. It returns an error, the one of the loop,
  whenever a named declaration is malformed. So the table differs after the call
  (returned or panicked) only if a module was loaded and no named declaration is
  malformed.
\<close>

theorem ParseProviderReferences_error_keeps_table:
  "(ParseProviderReferences d rm = Returns (rm', Some err) \<longrightarrow>
      providerRefs rm' = providerRefs rm \<and> parser rm' = parser rm)
   \<and> (LoadModuleFromFilesystem d (Path rm) = Some md \<and>
        (\<exists>x\<in>set (RequiredProviders md). malformed d x) \<longrightarrow>
        (\<exists>e. ParseProviderReferences d rm =
                Returns (called (Ran SParseProviderReferences (Some e)) rm, Some e)))
   \<and> ((ParseProviderReferences d rm = Returns (rm', r) \<or>
         ParseProviderReferences d rm = Panics rm') \<and>
        providerRefs rm' \<noteq> providerRefs rm \<longrightarrow>
        (\<exists>md. LoadModuleFromFilesystem d (Path rm) = Some md \<and>
           (\<forall>x\<in>set (RequiredProviders md). \<not> malformed d x)))"
proof -
  have p1: "providerRefs rm' = providerRefs rm \<and> parser rm' = parser rm"
    if "ParseProviderReferences d rm = Returns (rm', Some err)"
    using that
    by (auto simp: ParseProviderReferences_cases called_def
        split: option.splits sum.splits if_splits)
  have p2: "\<exists>e. ParseProviderReferences d rm =
      Returns (called (Ran SParseProviderReferences (Some e)) rm, Some e)"
    if a: "LoadModuleFromFilesystem d (Path rm) = Some md \<and>
     (\<exists>x\<in>set (RequiredProviders md). malformed d x)"
  proof -
    obtain e where "ParseProviderReferences_loop d (RequiredProviders md) [] = Inl e"
      using a ParseProviderReferences_loop_fails_iff [of d "RequiredProviders md" "[]"] by blast
    with a show ?thesis
      by (simp add: ParseProviderReferences_cases)
  qed
  have p3: "\<exists>md. LoadModuleFromFilesystem d (Path rm) = Some md \<and>
           (\<forall>x\<in>set (RequiredProviders md). \<not> malformed d x)"
    if a: "(ParseProviderReferences d rm = Returns (rm', r) \<or>
            ParseProviderReferences d rm = Panics rm') \<and> providerRefs rm' \<noteq> providerRefs rm"
  proof (cases "LoadModuleFromFilesystem d (Path rm)")
    case None
    with a show ?thesis by (auto simp: ParseProviderReferences_cases called_def)
  next
    case (Some md)
    show ?thesis
    proof (cases "ParseProviderReferences_loop d (RequiredProviders md) []")
      case (Inl e)
      with a Some show ?thesis by (auto simp: ParseProviderReferences_cases called_def)
    next
      case (Inr refs)
      then have "\<not> (\<exists>x\<in>set (RequiredProviders md). malformed d x)"
        using ParseProviderReferences_loop_fails_iff [of d "RequiredProviders md" "[]"] by simp
      with Some show ?thesis by simp
    qed
  qed
  show ?thesis using p1 p2 p3 by blast
qed

theorem ParseProviderReferences_error_keeps_table_witness:
  "LoadModuleFromFilesystem env_bad_source (Path loaded_ok) = Some bad_module
   \<and> (\<exists>x\<in>set (RequiredProviders bad_module). malformed env_bad_source x)
   \<and> providerRefs loaded_ok = [(''aws'', ''registry.terraform.io/hashicorp/aws'')]
   \<and> (\<exists>e. ParseProviderReferences env_bad_source loaded_ok =
            Returns (called (Ran SParseProviderReferences (Some e)) loaded_ok, Some e)
          \<and> providerRefs (called (Ran SParseProviderReferences (Some e)) loaded_ok)
              = [(''aws'', ''registry.terraform.io/hashicorp/aws'')])"
proof -
  have h: "LoadModuleFromFilesystem env_bad_source (Path loaded_ok) = Some bad_module
      \<and> (\<exists>x\<in>set (RequiredProviders bad_module). malformed env_bad_source x)"
    by (simp add: env_bad_source_def env_ok_def bad_module_def malformed_def)
  have k: "providerRefs loaded_ok = [(''aws'', ''registry.terraform.io/hashicorp/aws'')]"
    by (simp add: model_defs)
  from h obtain e where e: "ParseProviderReferences env_bad_source loaded_ok =
      Returns (called (Ran SParseProviderReferences (Some e)) loaded_ok, Some e)"
    using ParseProviderReferences_error_keeps_table
      [where d = env_bad_source and rm = loaded_ok and md = bad_module]
    by blast
  have "providerRefs (called (Ran SParseProviderReferences (Some e)) loaded_ok)
      = [(''aws'', ''registry.terraform.io/hashicorp/aws'')]"
    using k by (simp add: called_def)
  with h k e show ?thesis by blast
qed

section \<open>What one step does to the trace\<close>

lemma steps_ran_append: "steps_ran (xs @ ys) = steps_ran xs @ steps_ran ys"
  by (induction xs rule: steps_ran.induct) simp_all

lemma step_errors_append: "step_errors (xs @ ys) = step_errors xs @ step_errors ys"
  by (induction xs rule: step_errors.induct) simp_all

lemma UpdateModuleManifest_effect:
  assumes "UpdateModuleManifest d lf rm = (rm', err)"
  shows "trace rm' = trace rm @ [Ran SUpdateModuleManifest err] \<and> loadErr rm' = loadErr rm"
  using assms
  by (auto simp: UpdateModuleManifest_def ran_def called_def Let_def split: option.splits sum.splits)

lemma discoverTerraformExecutor_effect:
  assumes "discoverTerraformExecutor ctx rm = Returns (rm', err)"
  shows "trace rm' = trace rm @ [Ran SDiscoverTerraformExecutor err] \<and> loadErr rm' = loadErr rm"
  using assms
  by (auto simp: discoverTerraformExecutor_def discoverTerraformExecutor_at_def ranP_def ran_def
      called_def setTfLoaded_def Let_def split: option.splits sum.splits if_splits)

lemma discoverTerraformVersion_effect:
  assumes "discoverTerraformVersion d ctx rm = (rm', err)"
  shows "(trace rm' = trace rm @ [Ran SDiscoverTerraformVersion err] \<or>
          trace rm' = trace rm @ [CalledVersion, Ran SDiscoverTerraformVersion err])
         \<and> loadErr rm' = loadErr rm"
  using assms
  by (auto simp: discoverTerraformVersion_def ran_def called_def Let_def
      split: option.splits sum.splits)

lemma ParseProviderReferences_effect:
  assumes "ParseProviderReferences d rm = Returns (rm', err)"
  shows "trace rm' = trace rm @ [Ran SParseProviderReferences err] \<and> loadErr rm' = loadErr rm"
  using assms
  by (auto simp: ParseProviderReferences_def ranP_def ran_def called_def Let_def
      split: option.splits sum.splits if_splits)

lemma findCompatibleLangParser_effect:
  assumes "findCompatibleLangParser d rm = (rm', err)"
  shows "trace rm' = trace rm @ [Ran SFindCompatibleLangParser err] \<and> loadErr rm' = loadErr rm"
  using assms
  by (auto simp: findCompatibleLangParser_def ran_def called_def setParserLoaded_def
      split: sum.splits if_splits)

lemma findCompatibleStateStorage_effect:
  assumes "findCompatibleStateStorage rm = Returns (rm', err)"
  shows "trace rm' = trace rm @ [Ran SFindCompatibleStateStorage err] \<and> loadErr rm' = loadErr rm"
  using assms
  by (auto simp: findCompatibleStateStorage_def ranP_def ran_def called_def Let_def
      split: option.splits sum.splits if_splits)

lemma UpdateSchemaCache_effect:
  assumes "UpdateSchemaCache d ctx lf rm = (rm', err)"
  shows "(trace rm' = trace rm @ [Ran SUpdateSchemaCache err] \<or>
          (\<exists>dir. trace rm' = trace rm @ [CalledObtainSchemasForModule dir, Ran SUpdateSchemaCache err]))
         \<and> loadErr rm' = loadErr rm"
  using assms
  by (auto simp: UpdateSchemaCache_def ran_def called_def setSchemaLoaded_def Let_def
      split: option.splits if_splits)

lemma load_step_effect:
  assumes "load_step d ctx st rm = Returns (rm', err)"
  shows "steps_ran (trace rm') = steps_ran (trace rm) @ [st]"
    and "step_errors (trace rm') = Append (step_errors (trace rm)) err"
    and "loadErr rm' = loadErr rm"
proof -
  have "(\<exists>evs. trace rm' = trace rm @ evs @ [Ran st err] \<and> steps_ran evs = [] \<and> step_errors evs = [])
        \<and> loadErr rm' = loadErr rm"
  proof (cases st)
    case SUpdateModuleManifest
    with assms show ?thesis
      using UpdateModuleManifest_effect [of d "moduleManifestFile rm" rm rm' err] by simp
  next
    case SDiscoverTerraformExecutor
    with assms obtain rm1 where "discoverTerraformExecutor ctx rm = Returns (rm1, err)"
      and "rm' = rm1\<lparr>tfDiscoErr := err\<rparr>"
      by (auto split: outcome.splits)
    then show ?thesis
      using SDiscoverTerraformExecutor discoverTerraformExecutor_effect [of ctx rm rm1 err] by simp
  next
    case SDiscoverTerraformVersion
    with assms obtain rm1 where a: "discoverTerraformVersion d ctx rm = (rm1, err)"
      and b: "rm' = rm1\<lparr>tfVersionErr := err\<rparr>"
      by (auto split: prod.splits)
    have "steps_ran [CalledVersion] = [] \<and> step_errors [CalledVersion] = []" by simp
    then show ?thesis
      using SDiscoverTerraformVersion b discoverTerraformVersion_effect [OF a]
      by (metis append_Cons append_Nil rootModule.select_convs rootModule.surjective
          rootModule.update_convs(21) steps_ran.simps(1) step_errors.simps(1))
  next
    case SParseProviderReferences
    with assms show ?thesis
      using ParseProviderReferences_effect [of d rm rm' err] by simp
  next
    case SFindCompatibleLangParser
    with assms show ?thesis
      using findCompatibleLangParser_effect [of d rm rm' err] by simp
  next
    case SFindCompatibleStateStorage
    with assms show ?thesis
      using findCompatibleStateStorage_effect [of rm rm' err] by simp
  next
    case SUpdateSchemaCache
    with assms have a: "UpdateSchemaCache d ctx (pluginLockFile rm) rm = (rm', err)" by simp
    show ?thesis
      using SUpdateSchemaCache UpdateSchemaCache_effect [OF a]
      by (metis append_Cons append_Nil steps_ran.simps(1) steps_ran.simps(4) step_errors.simps(1) step_errors.simps(5))
  qed
  then obtain evs where e: "trace rm' = trace rm @ evs @ [Ran st err]"
    "steps_ran evs = []" "step_errors evs = []" and l: "loadErr rm' = loadErr rm" by blast
  show "steps_ran (trace rm') = steps_ran (trace rm) @ [st]"
    using e by (simp add: steps_ran_append)
  show "step_errors (trace rm') = Append (step_errors (trace rm)) err"
    using e by (cases err) (simp_all add: step_errors_append Append_def)
  show "loadErr rm' = loadErr rm" by (rule l)
qed

section \<open>The pipeline as a list of steps\<close>

lemma run_steps_effect:
  "run_steps d ctx sts (rm, errs) = Returns (rm', errs') \<Longrightarrow>
     steps_ran (trace rm') = steps_ran (trace rm) @ sts
     \<and> (\<exists>new. errs' = errs @ new \<and> step_errors (trace rm') = step_errors (trace rm) @ new)
     \<and> loadErr rm' = loadErr rm"
proof (induction sts arbitrary: rm errs)
  case Nil
  then show ?case by simp
next
  case (Cons st sts)
  from Cons.prems obtain rm1 err where s: "load_step d ctx st rm = Returns (rm1, err)"
    and r: "run_steps d ctx sts (rm1, Append errs err) = Returns (rm', errs')"
    by (auto split: outcome.splits)
  from Cons.IH [OF r] obtain new where
    a: "steps_ran (trace rm') = steps_ran (trace rm1) @ sts"
    and b: "errs' = Append errs err @ new"
    and c: "step_errors (trace rm') = step_errors (trace rm1) @ new"
    and l: "loadErr rm' = loadErr rm1"
    by blast
  have "errs' = errs @ (Append [] err @ new)"
    using b by (simp add: Append_def split: option.splits)
  moreover have "step_errors (trace rm') = step_errors (trace rm) @ (Append [] err @ new)"
    using c load_step_effect(2) [OF s] by (simp add: Append_def split: option.splits)
  ultimately show ?case
    using a l load_step_effect(1) [OF s] load_step_effect(3) [OF s] by auto
qed

lemma load_run_steps:
  "load d ctx rm =
     (case run_steps d ctx pipeline (setLoadingState True rm, []) of
        Panics rm1 \<Rightarrow> Panics (CancelLoading rm1)
      | Returns (rm1, errs) \<Rightarrow> Returns (CancelLoading rm1, ErrorOrNil errs))"
proof -
  obtain rm1 e1 where s1:
    "UpdateModuleManifest d (moduleManifestFile (setLoadingState True rm))
       (setLoadingState True rm) = (rm1, e1)"
    by (cases "UpdateModuleManifest d (moduleManifestFile (setLoadingState True rm))
       (setLoadingState True rm)")
  show ?thesis
  proof (cases "discoverTerraformExecutor ctx rm1")
    case (Panics x)
    with s1 show ?thesis by (simp add: load_def pipeline_def Let_def)
  next
    case (Returns p2)
    obtain rm2 e2 where p2: "p2 = (rm2, e2)" by (cases p2)
    obtain rm3 e3 where s3: "discoverTerraformVersion d ctx (rm2\<lparr>tfDiscoErr := e2\<rparr>) = (rm3, e3)"
      by (cases "discoverTerraformVersion d ctx (rm2\<lparr>tfDiscoErr := e2\<rparr>)")
    show ?thesis
    proof (cases "ParseProviderReferences d (rm3\<lparr>tfVersionErr := e3\<rparr>)")
      case (Panics x)
      with s1 Returns p2 s3 show ?thesis by (simp add: load_def pipeline_def Let_def)
    next
      case r4: (Returns p4)
      obtain rm4 e4 where p4: "p4 = (rm4, e4)" by (cases p4)
      obtain rm5 e5 where s5: "findCompatibleLangParser d rm4 = (rm5, e5)"
        by (cases "findCompatibleLangParser d rm4")
      show ?thesis
      proof (cases "findCompatibleStateStorage rm5")
        case (Panics x)
        with s1 Returns p2 s3 r4 p4 s5 show ?thesis by (simp add: load_def pipeline_def Let_def)
      next
        case r6: (Returns p6)
        obtain rm6 e6 where p6: "p6 = (rm6, e6)" by (cases p6)
        obtain rm7 e7 where s7: "UpdateSchemaCache d ctx (pluginLockFile rm6) rm6 = (rm7, e7)"
          by (cases "UpdateSchemaCache d ctx (pluginLockFile rm6) rm6")
        from s1 Returns p2 s3 r4 p4 s5 r6 p6 s7 show ?thesis
          by (simp add: load_def pipeline_def Let_def)
      qed
    qed
  qed
qed

lemma CancelLoading_fields:
  "trace (CancelLoading rm) = trace rm" "loadErr (CancelLoading rm) = loadErr rm"
  "isLoading (CancelLoading rm) = False"
  by (simp_all add: CancelLoading_def setLoadingState_def split: option.splits)

lemma load_runs_every_step:
  assumes "load d ctx rm = Returns (rm', r)"
  shows "steps_ran (trace rm') = steps_ran (trace rm) @ pipeline
     \<and> (\<exists>new. step_errors (trace rm') = step_errors (trace rm) @ new \<and> r = ErrorOrNil new)
     \<and> loadErr rm' = loadErr rm \<and> IsLoadingDone rm'"
proof -
  from assms obtain rm1 errs where
    r: "run_steps d ctx pipeline (setLoadingState True rm, []) = Returns (rm1, errs)"
    and e: "rm' = CancelLoading rm1" "r = ErrorOrNil errs"
    by (auto simp: load_run_steps split: outcome.splits)
  from run_steps_effect [OF r] e show ?thesis
    by (simp add: CancelLoading_fields setLoadingState_def IsLoadingDone_def)
qed

section \<open>The goroutine\<close>

lemma remaining_Before: "remaining (Before st) = st # remaining (next_step st)"
  by (cases st) (simp_all add: pipeline_def)



lemma run_goroutine_add:
  "run_goroutine d (m + n) g rm =
     (case run_goroutine d m g rm of
        Panics rm1 \<Rightarrow> Panics rm1
      | Returns (rm1, g1) \<Rightarrow> run_goroutine d n g1 rm1)"
  by (induction m arbitrary: g rm) (auto split: outcome.splits)

lemma run_goroutine_run_steps:
  "g_point g = Before st \<Longrightarrow> n = length (remaining (Before st)) \<Longrightarrow>
     run_goroutine d n g rm =
       (case run_steps d (g_ctx g) (remaining (Before st)) (rm, g_errs g) of
          Panics rm1 \<Rightarrow> Panics (CancelLoading rm1)
        | Returns (rm1, errs) \<Rightarrow> Returns (rm1, g\<lparr>g_point := Exit, g_errs := errs\<rparr>))"
proof (induction n arbitrary: g st rm)
  case 0
  then show ?case by (simp add: remaining_Before)
next
  case (Suc n)
  have rem: "remaining (Before st) = st # remaining (next_step st)"
    by (rule remaining_Before)
  with Suc.prems have n: "n = length (remaining (next_step st))" by simp
  show ?case
  proof (cases "load_step d (g_ctx g) st rm")
    case (Panics rm1)
    with Suc.prems show ?thesis
      by (simp add: rem goroutine_step_def)
  next
    case (Returns p)
    obtain rm1 err where p: "p = (rm1, err)" by (cases p)
    let ?g1 = "g\<lparr>g_point := next_step st, g_errs := Append (g_errs g) err\<rparr>"
    have s: "goroutine_step d g rm = Returns (rm1, ?g1)"
      using Suc.prems Returns p by (simp add: goroutine_step_def)
    show ?thesis
    proof (cases "next_step st")
      case (Before st')
      have "run_goroutine d n ?g1 rm1 =
        (case run_steps d (g_ctx ?g1) (remaining (Before st')) (rm1, g_errs ?g1) of
          Panics rm2 \<Rightarrow> Panics (CancelLoading rm2)
        | Returns (rm2, errs) \<Rightarrow> Returns (rm2, ?g1\<lparr>g_point := Exit, g_errs := errs\<rparr>))"
        using Suc.IH [of ?g1 st' rm1] n Before by simp
      with s Returns p Before show ?thesis
        by (simp add: rem split: outcome.splits)
    next
      case Exit
      with n have "n = 0" by simp
      with s Returns p Exit show ?thesis
        by (simp add: rem)
    qed (cases st; simp)+
  qed
qed

lemma run_goroutine_load:
  "run_goroutine d 10 (fresh_goroutine c) rm =
     (case load d c rm of
        Panics rm1 \<Rightarrow> Panics rm1
      | Returns (rm1, r) \<Rightarrow>
          (case run_steps d c pipeline (setLoadingState True rm, []) of
             Panics rm2 \<Rightarrow> Panics rm2
           | Returns (rm2, errs) \<Rightarrow>
               Returns (setLoadErr r rm1,
                 \<lparr>g_ctx = c, g_point = Finished, g_errs = errs, g_ret = r\<rparr>)))"
proof -
  let ?g1 = "(fresh_goroutine c)\<lparr>g_point := Before SUpdateModuleManifest\<rparr>"
  have ten: "(10::nat) = Suc (7 + 2)" by simp
  have first: "goroutine_step d (fresh_goroutine c) rm = Returns (setLoadingState True rm, ?g1)"
    by (simp add: goroutine_step_def fresh_goroutine_def)
  have mid: "run_goroutine d 7 ?g1 (setLoadingState True rm) =
       (case run_steps d c pipeline (setLoadingState True rm, []) of
          Panics rm1 \<Rightarrow> Panics (CancelLoading rm1)
        | Returns (rm1, errs) \<Rightarrow> Returns (rm1, ?g1\<lparr>g_point := Exit, g_errs := errs\<rparr>))"
    using run_goroutine_run_steps [of ?g1 SUpdateModuleManifest 7 d "setLoadingState True rm"]
    by (simp add: fresh_goroutine_def pipeline_def)
  have two: "(2::nat) = Suc (Suc 0)" by simp
  show ?thesis
    unfolding ten run_goroutine.simps first outcome.case prod.case run_goroutine_add mid
    by (simp add: load_run_steps two goroutine_step_def fresh_goroutine_def
        split: outcome.splits)
qed

lemma outcome_ReturnsI:
  "\<not> panics out \<Longrightarrow> \<exists>r. out = Returns r"
  by (cases out) (simp_all add: panics_def)

lemma discoverCaches_loadErr:
  "discoverCaches d ctx dir rm = (rm', r) \<Longrightarrow> loadErr rm' = loadErr rm"
  by (auto simp: discoverCaches_def discoverPluginCache_def discoverModuleCache_def Let_def
      split: sum.splits if_splits prod.splits)

lemma NewRootModule_cases:
  "NewRootModule d ctx dir =
     (case discoverCaches d ctx dir (start d dir) of
        (rm0, None) \<Rightarrow> load d ctx rm0
      | (rm0, Some e) \<Rightarrow> Returns (rm0, Some e))"
  by (simp add: NewRootModule_def start_def Let_def split: prod.splits option.splits)

section \<open>A load attempt as a whole\<close>

text \<open>
  C1. A load attempt runs the seven steps in the order of \<open>pipeline\<close> and returns the
  accumulated errors only if no step panics (\<open>load_runs_every_step\<close>). It does not do
  so for every attempt: in the object built where no toolchain is found, the parser-loaded
  flag is set and no parser is installed, and the next \<open>load\<close>, called directly or by
  the goroutine of \<open>StartLoading\<close>, panics in \<open>ParseProviderReferences\<close>; three
  steps have run, the other four never run and \<open>load\<close> returns nothing.
\<close>

theorem load_aborts_after_three_steps:
  "\<not> panics (NewRootModule env_no_toolchain 0 ''/w'')
   \<and> result (load env_no_toolchain 1 loaded_no_toolchain) = None
   \<and> map_option (steps_since loaded_no_toolchain)
       (panic_state (load env_no_toolchain 1 loaded_no_toolchain))
     = Some [SUpdateModuleManifest, SDiscoverTerraformExecutor, SDiscoverTerraformVersion]
   \<and> map_option (steps_since loaded_no_toolchain)
       (panic_state (run env_no_toolchain
          [CallStartLoading, Run 0, Run 0, Run 0, Run 0, Run 0] (system_of loaded_no_toolchain)))
     = Some [SUpdateModuleManifest, SDiscoverTerraformExecutor, SDiscoverTerraformVersion]"
  by (simp add: run_defs model_defs)

text \<open>
  C2 as stated fails for the initial load: \<open>NewRootModule\<close> returns the accumulated
  errors of the first load to its caller and \<open>LoadError\<close> is nil afterwards.
\<close>

theorem initial_load_error_not_stored_counterexample:
  "result (NewRootModule env_no_toolchain 0 ''/w'') =
     Some (loaded_no_toolchain,
       Some [ErrorString ''terraform not found'',
             ErrorString ''no terraform executor - unable to read version'',
             ErrorString ''unknown terraform version - unable to find parser'',
             ErrorString ''unknown terraform version - unable to find state storage''])
   \<and> LoadError loaded_no_toolchain = None"
  by (simp add: run_defs model_defs)

text \<open>
  C2, amended. The goroutine of \<open>StartLoading\<close> stores what its \<open>load\<close> returned,
  and \<open>LoadError\<close> returns it: this holds for a goroutine that runs undisturbed from
  start to end, and step by step (on leaving \<open>load\<close> the return value is the
  accumulator, and the next action stores it). \<open>NewRootModule\<close> returns the errors of
  the cache lookup or else what \<open>load\<close> returns, and stores neither: \<open>LoadError\<close> is
  nil on the object it returns.
\<close>

theorem load_error_stored_by_goroutine_only:
  "(run_goroutine d 10 (fresh_goroutine c) rm = Returns (rm', g') \<longrightarrow>
      g_point g' = Finished
      \<and> (\<exists>rm1. load d c rm = Returns (rm1, LoadError rm') \<and> rm' = setLoadErr (LoadError rm') rm1))
   \<and> (g_point g = Exit \<and> goroutine_step d g rm = Returns (rm', g') \<longrightarrow>
        g_ret g' = ErrorOrNil (g_errs g))
   \<and> (g_point g = Store \<and> goroutine_step d g rm = Returns (rm', g') \<longrightarrow>
        LoadError rm' = g_ret g)
   \<and> (NewRootModule d ctx dir = Returns (rm', r) \<longrightarrow> LoadError rm' = None)
   \<and> (discoverCaches d ctx dir (start d dir) = (rm0, None) \<longrightarrow>
        NewRootModule d ctx dir = load d ctx rm0)
   \<and> (discoverCaches d ctx dir (start d dir) = (rm0, Some e) \<longrightarrow>
        NewRootModule d ctx dir = Returns (rm0, Some e))"
proof -
  have p1: "g_point g' = Finished
      \<and> (\<exists>rm1. load d c rm = Returns (rm1, LoadError rm') \<and> rm' = setLoadErr (LoadError rm') rm1)"
    if "run_goroutine d 10 (fresh_goroutine c) rm = Returns (rm', g')"
    using that
    by (auto simp: run_goroutine_load LoadError_def setLoadErr_def split: outcome.splits)
  have p2: "g_ret g' = ErrorOrNil (g_errs g)"
    if "g_point g = Exit \<and> goroutine_step d g rm = Returns (rm', g')"
    using that by (auto simp: goroutine_step_def)
  have p3: "LoadError rm' = g_ret g"
    if "g_point g = Store \<and> goroutine_step d g rm = Returns (rm', g')"
    using that by (auto simp: goroutine_step_def LoadError_def setLoadErr_def)
  have s: "loadErr (start d dir) = None"
    by (simp add: start_def newRootModule_def)
  have p4: "LoadError rm' = None" if a: "NewRootModule d ctx dir = Returns (rm', r)"
  proof -
    obtain rm0 r0 where c: "discoverCaches d ctx dir (start d dir) = (rm0, r0)"
      by (cases "discoverCaches d ctx dir (start d dir)")
    have l: "loadErr rm0 = None"
      using discoverCaches_loadErr [OF c] s by simp
    show ?thesis
    proof (cases r0)
      case None
      with a c have "load d ctx rm0 = Returns (rm', r)" by (simp add: NewRootModule_cases)
      from load_runs_every_step [OF this] l show ?thesis by (simp add: LoadError_def)
    next
      case (Some e)
      with a c l show ?thesis by (simp add: NewRootModule_cases LoadError_def)
    qed
  qed
  have p5: "NewRootModule d ctx dir = load d ctx rm0"
    if "discoverCaches d ctx dir (start d dir) = (rm0, None)"
    using that by (simp add: NewRootModule_cases)
  have p6: "NewRootModule d ctx dir = Returns (rm0, Some e)"
    if "discoverCaches d ctx dir (start d dir) = (rm0, Some e)"
    using that by (simp add: NewRootModule_cases)
  show ?thesis using p1 p2 p3 p4 p5 p6 by blast
qed

theorem load_error_stored_by_goroutine_only_witness:
  "(\<exists>rm' g'. run_goroutine env_bad_source 10 (fresh_goroutine 1) loaded_ok = Returns (rm', g')
      \<and> g_point g' = Finished
      \<and> (\<exists>rm1. load env_bad_source 1 loaded_ok = Returns (rm1, LoadError rm')
            \<and> rm' = setLoadErr (LoadError rm') rm1)
      \<and> LoadError rm' = Some [ErrorString ''invalid provider source string''])
   \<and> (\<exists>r. NewRootModule env_no_toolchain 0 ''/w'' = Returns (loaded_no_toolchain, r) \<and> r \<noteq> None)
   \<and> LoadError loaded_no_toolchain = None"
proof -
  have a: "\<not> panics (run_goroutine env_bad_source 10 (fresh_goroutine 1) loaded_ok)
      \<and> map_option (LoadError \<circ> fst)
          (result (run_goroutine env_bad_source 10 (fresh_goroutine 1) loaded_ok))
        = Some (Some [ErrorString ''invalid provider source string''])"
    by (simp add: run_defs model_defs fresh_goroutine_def load_step.simps eval_nat_numeral)
  then obtain rm' g' where
    r: "run_goroutine env_bad_source 10 (fresh_goroutine 1) loaded_ok = Returns (rm', g')"
    using outcome_ReturnsI by fastforce
  with a have v: "LoadError rm' = Some [ErrorString ''invalid provider source string'']"
    by (simp add: result_def)
  have w: "g_point g' = Finished
      \<and> (\<exists>rm1. load env_bad_source 1 loaded_ok = Returns (rm1, LoadError rm')
            \<and> rm' = setLoadErr (LoadError rm') rm1)"
    using r load_error_stored_by_goroutine_only
      [where d = env_bad_source and c = 1 and rm = loaded_ok and rm' = rm' and g' = g']
    by blast
  have b: "result (NewRootModule env_no_toolchain 0 ''/w'') =
     Some (loaded_no_toolchain,
       Some [ErrorString ''terraform not found'',
             ErrorString ''no terraform executor - unable to read version'',
             ErrorString ''unknown terraform version - unable to find parser'',
             ErrorString ''unknown terraform version - unable to find state storage''])"
    by (simp add: run_defs model_defs)
  then obtain r where n: "NewRootModule env_no_toolchain 0 ''/w'' = Returns (loaded_no_toolchain, r)"
    and rn: "r \<noteq> None"
    by (cases "NewRootModule env_no_toolchain 0 ''/w''") (auto simp: result_def)
  have "LoadError loaded_no_toolchain = None"
    using n load_error_stored_by_goroutine_only
      [where d = env_no_toolchain and ctx = 0 and dir = "''/w''" and rm' = loaded_no_toolchain
         and r = r]
    by blast
  with r v w n rn show ?thesis by blast
qed

section \<open>Starting and cancelling\<close>

lemma StartLoading_while_loading:
  "\<not> IsLoadingDone (root s) \<Longrightarrow>
     StartLoading s = (s, Some (ErrorString ''root module is already being loaded''))"
  by (simp add: StartLoading_def)

text \<open>
  C3. \<open>StartLoading\<close> refuses while the loading flag is set
  (\<open>StartLoading_while_loading\<close>), but the flag is set by the goroutine, not by
  \<open>StartLoading\<close>: two calls in a row on an idle object both return nil, two pipelines
  are in flight, and both run their steps.
\<close>

theorem StartLoading_twice_starts_two_pipelines:
  "IsLoadingDone (root (system_of loaded_ok))
   \<and> map_option returned
       (result (run env_ok [CallStartLoading, CallStartLoading] (system_of loaded_ok)))
     = Some [None, None]
   \<and> map_option active_pipelines
       (result (run env_ok [CallStartLoading, CallStartLoading] (system_of loaded_ok)))
     = Some 2
   \<and> map_option (steps_since loaded_ok \<circ> root)
       (result (run env_ok [CallStartLoading, CallStartLoading, Run 0, Run 1, Run 0, Run 1]
          (system_of loaded_ok)))
     = Some [SUpdateModuleManifest, SUpdateModuleManifest]
   \<and> map_option active_pipelines
       (result (run env_ok [CallStartLoading, CallStartLoading, Run 0, Run 1, Run 0, Run 1]
          (system_of loaded_ok)))
     = Some 2"
  by (simp add: run_defs model_defs)




section \<open>Parser and schema store\<close>

text \<open>
  C5 as stated fails in its first and in its last part. On a reload of the object built
  in the first environment a schema store exists, and \<open>findCompatibleLangParser\<close>
  installs a parser without schema reader. On a reload whose version query fails, step 3
  records no version, the version of the first load stays, and step 5 returns nil.
\<close>

theorem findCompatibleLangParser_binds_no_store_counterexample:
  "schemaStorage loaded_ok = Some (Storage ''0.12.0'')
   \<and> snd (findCompatibleLangParser env_ok loaded_ok) = None
   \<and> parser (fst (findCompatibleLangParser env_ok loaded_ok)) =
       Some \<lparr>parserVersion = ''0.12.0'', schemaReader = None, providerReferences = None\<rparr>
   \<and> map_option (events_since loaded_ok \<circ> fst) (result (load env_version_fails 1 loaded_ok)) =
       Some [Ran SUpdateModuleManifest None, Ran SDiscoverTerraformExecutor None,
         CalledVersion,
         Ran SDiscoverTerraformVersion (Some (ErrorString ''exit status 1'')),
         Ran SParseProviderReferences None, Ran SFindCompatibleLangParser None,
         Ran SFindCompatibleStateStorage None, Ran SUpdateSchemaCache None]"
  by (simp add: run_defs model_defs)

text \<open>
  C5, amended. \<open>findCompatibleLangParser\<close> returns an error whenever \<open>tfVersion\<close> is
  empty; a version query that fails leaves \<open>tfVersion\<close> as it was, so a version of an
  earlier load counts. It sets the parser-loaded flag whatever the outcome, leaves the
  schema store alone, and installs the parser as the factory made it (keeping the old one
  when the factory fails). The schema reader is bound by \<open>findCompatibleStateStorage\<close>:
  when it succeeds, the store is the one that \<open>newSchemaStorage\<close> has just returned for
  \<open>tfVersion\<close>, and it is bound to the installed parser when the parser-loaded flag is
  set; otherwise the parser is left as it was.
\<close>

theorem findCompatibleLangParser_installs_parser_as_made:
  "(tfVersion rm = [] \<longrightarrow>
      snd (findCompatibleLangParser d rm) =
        Some (ErrorString ''unknown terraform version - unable to find parser''))
   \<and> (discoverTerraformVersion d ctx rm = (rm3, Some e3) \<longrightarrow> tfVersion rm3 = tfVersion rm)
   \<and> IsParserLoaded (fst (findCompatibleLangParser d rm))
   \<and> schemaStorage (fst (findCompatibleLangParser d rm)) = schemaStorage rm
   \<and> (tfVersion rm \<noteq> [] \<and> FindCompatibleParser d (tfVersion rm) = Inr p \<longrightarrow>
        parser (fst (findCompatibleLangParser d rm)) = Some p
        \<and> snd (findCompatibleLangParser d rm) = None)
   \<and> (tfVersion rm \<noteq> [] \<and> FindCompatibleParser d (tfVersion rm) = Inl e \<longrightarrow>
        parser (fst (findCompatibleLangParser d rm)) = parser rm
        \<and> snd (findCompatibleLangParser d rm) = Some e)
   \<and> (findCompatibleStateStorage rm = Returns (rm', None) \<longrightarrow>
        (\<exists>new ss. newSchemaStorage rm = Some new \<and> new (tfVersion rm) = Inr ss
           \<and> schemaStorage rm' = Some ss
           \<and> (if IsParserLoaded rm
               then \<exists>q. parser rm = Some q \<and> parser rm' = Some (SetSchemaReader ss q)
               else parser rm' = parser rm)))"
proof -
  have p5: "snd (findCompatibleLangParser d rm) =
        Some (ErrorString ''unknown terraform version - unable to find parser'')"
    if "tfVersion rm = []"
    using that by (simp add: findCompatibleLangParser_def ran_def)
  have p3: "tfVersion rm3 = tfVersion rm"
    if "discoverTerraformVersion d ctx rm = (rm3, Some e3)"
    using that
    by (auto simp: discoverTerraformVersion_def ran_def called_def Let_def
        split: option.splits sum.splits)
  have flag: "IsParserLoaded (fst (findCompatibleLangParser d rm))
      \<and> schemaStorage (fst (findCompatibleLangParser d rm)) = schemaStorage rm"
    by (simp add: findCompatibleLangParser_def ran_def called_def setParserLoaded_def
        IsParserLoaded_def split: sum.splits)
  have ok: "parser (fst (findCompatibleLangParser d rm)) = Some p
        \<and> snd (findCompatibleLangParser d rm) = None"
    if "tfVersion rm \<noteq> [] \<and> FindCompatibleParser d (tfVersion rm) = Inr p"
    using that
    by (simp add: findCompatibleLangParser_def ran_def called_def setParserLoaded_def)
  have bad: "parser (fst (findCompatibleLangParser d rm)) = parser rm
        \<and> snd (findCompatibleLangParser d rm) = Some e"
    if "tfVersion rm \<noteq> [] \<and> FindCompatibleParser d (tfVersion rm) = Inl e"
    using that
    by (simp add: findCompatibleLangParser_def ran_def called_def setParserLoaded_def)
  have p6: "\<exists>new ss. newSchemaStorage rm = Some new \<and> new (tfVersion rm) = Inr ss
           \<and> schemaStorage rm' = Some ss
           \<and> (if IsParserLoaded rm
               then \<exists>q. parser rm = Some q \<and> parser rm' = Some (SetSchemaReader ss q)
               else parser rm' = parser rm)"
    if "findCompatibleStateStorage rm = Returns (rm', None)"
    using that
    by (auto simp: findCompatibleStateStorage_def ranP_def ran_def called_def
        IsParserLoaded_def Let_def split: sum.splits option.splits if_splits)
  show ?thesis using p5 p3 flag ok bad p6 by blast
qed

theorem findCompatibleLangParser_installs_parser_as_made_witness:
  "tfVersion loaded_no_toolchain = []
   \<and> snd (findCompatibleLangParser env_no_toolchain loaded_no_toolchain) =
        Some (ErrorString ''unknown terraform version - unable to find parser'')
   \<and> IsParserLoaded (fst (findCompatibleLangParser env_no_toolchain loaded_no_toolchain))
   \<and> discoverTerraformVersion env_version_fails 1 loaded_ok =
        (fst (discoverTerraformVersion env_version_fails 1 loaded_ok),
         Some (ErrorString ''exit status 1''))
   \<and> tfVersion (fst (discoverTerraformVersion env_version_fails 1 loaded_ok)) = ''0.12.0''
   \<and> tfVersion loaded_ok \<noteq> []
   \<and> FindCompatibleParser env_ok (tfVersion loaded_ok) =
        Inr \<lparr>parserVersion = ''0.12.0'', schemaReader = None, providerReferences = None\<rparr>
   \<and> parser (fst (findCompatibleLangParser env_ok loaded_ok)) =
        Some \<lparr>parserVersion = ''0.12.0'', schemaReader = None, providerReferences = None\<rparr>
   \<and> tfVersion loaded_old_toolchain \<noteq> []
   \<and> FindCompatibleParser env_old_toolchain (tfVersion loaded_old_toolchain) =
        Inl (ErrorString ''no compatible parser'')
   \<and> snd (findCompatibleLangParser env_old_toolchain loaded_old_toolchain) =
        Some (ErrorString ''no compatible parser'')
   \<and> IsParserLoaded (fst (findCompatibleLangParser env_old_toolchain loaded_old_toolchain))
   \<and> schemaStorage before_step_6 = Some (Storage ''0.12.0'')
   \<and> IsParserLoaded before_step_6
   \<and> (\<exists>rm'. findCompatibleStateStorage before_step_6 = Returns (rm', None)
        \<and> schemaStorage rm' = Some (Storage ''0.13.0'')
        \<and> parser rm' = Some (SetSchemaReader (Storage ''0.13.0'')
             \<lparr>parserVersion = ''0.13.0'', schemaReader = None, providerReferences = None\<rparr>))"
proof -
  have a: "tfVersion loaded_no_toolchain = []" by (simp add: model_defs)
  have a': "snd (findCompatibleLangParser env_no_toolchain loaded_no_toolchain) =
        Some (ErrorString ''unknown terraform version - unable to find parser'')
      \<and> IsParserLoaded (fst (findCompatibleLangParser env_no_toolchain loaded_no_toolchain))"
    using a findCompatibleLangParser_installs_parser_as_made
        [where rm = loaded_no_toolchain and d = env_no_toolchain]
    by blast
  have v: "snd (discoverTerraformVersion env_version_fails 1 loaded_ok) =
      Some (ErrorString ''exit status 1'')"
    by (simp add: model_defs env_version_fails_def)
  then have v1: "discoverTerraformVersion env_version_fails 1 loaded_ok =
        (fst (discoverTerraformVersion env_version_fails 1 loaded_ok),
         Some (ErrorString ''exit status 1''))"
    by (metis prod.collapse)
  have v0: "tfVersion loaded_ok = ''0.12.0''" by (simp add: model_defs)
  have v': "tfVersion (fst (discoverTerraformVersion env_version_fails 1 loaded_ok)) = ''0.12.0''"
    using v1 v0 findCompatibleLangParser_installs_parser_as_made
        [where rm = loaded_ok and d = env_version_fails and ctx = 1
           and ?rm3.0 = "fst (discoverTerraformVersion env_version_fails 1 loaded_ok)"
           and ?e3.0 = "ErrorString ''exit status 1''"]
    by simp
  have b: "tfVersion loaded_ok \<noteq> [] \<and> FindCompatibleParser env_ok (tfVersion loaded_ok) =
      Inr \<lparr>parserVersion = ''0.12.0'', schemaReader = None, providerReferences = None\<rparr>"
    by (simp add: model_defs)
  have b': "parser (fst (findCompatibleLangParser env_ok loaded_ok)) =
        Some \<lparr>parserVersion = ''0.12.0'', schemaReader = None, providerReferences = None\<rparr>"
    using b findCompatibleLangParser_installs_parser_as_made
        [where rm = loaded_ok and d = env_ok
           and p = "\<lparr>parserVersion = ''0.12.0'', schemaReader = None, providerReferences = None\<rparr>"]
    by blast
  have c: "tfVersion loaded_old_toolchain \<noteq> []
      \<and> FindCompatibleParser env_old_toolchain (tfVersion loaded_old_toolchain) =
        Inl (ErrorString ''no compatible parser'')"
    by (simp add: model_defs)
  have c': "snd (findCompatibleLangParser env_old_toolchain loaded_old_toolchain) =
        Some (ErrorString ''no compatible parser'')
      \<and> IsParserLoaded (fst (findCompatibleLangParser env_old_toolchain loaded_old_toolchain))"
    using c findCompatibleLangParser_installs_parser_as_made
        [where rm = loaded_old_toolchain and d = env_old_toolchain
           and e = "ErrorString ''no compatible parser''"]
    by blast
  have f: "tfVersion before_step_6 = ''0.13.0''
      \<and> schemaStorage before_step_6 = Some (Storage ''0.12.0'')
      \<and> IsParserLoaded before_step_6
      \<and> parser before_step_6 =
          Some \<lparr>parserVersion = ''0.13.0'', schemaReader = None, providerReferences = None\<rparr>
      \<and> newSchemaStorage before_step_6 = Some (\<lambda>v. Inr (Storage v))"
    by (simp add: run_defs model_defs)
  have g: "\<not> panics (findCompatibleStateStorage before_step_6)
      \<and> map_option snd (result (findCompatibleStateStorage before_step_6)) = Some None"
    by (simp add: run_defs model_defs)
  then obtain rm' where r: "findCompatibleStateStorage before_step_6 = Returns (rm', None)"
    by (cases "findCompatibleStateStorage before_step_6") (auto simp: panics_def result_def)
  have d': "schemaStorage rm' = Some (Storage ''0.13.0'')
        \<and> parser rm' = Some (SetSchemaReader (Storage ''0.13.0'')
             \<lparr>parserVersion = ''0.13.0'', schemaReader = None, providerReferences = None\<rparr>)"
    using r f findCompatibleLangParser_installs_parser_as_made
        [where rm = before_step_6 and rm' = rm']
    by auto
  from a a' v1 v' b b' c c' f r d' show ?thesis by blast
qed

text \<open>
  C6 as stated fails where both conditions meet: without lock file and with the toolchain
  not loaded, \<open>UpdateSchemaCache\<close> returns the error.
\<close>

theorem UpdateSchemaCache_nil_lock_file_counterexample:
  "\<not> IsTerraformLoaded not_loaded
   \<and> snd (UpdateSchemaCache env_unreadable 0 None not_loaded) =
       Some (ErrorString ''cannot update schema as terraform executor is not available yet'')"
  by (simp add: model_defs)

text \<open>
  C6, amended. When the toolchain is loaded and the lock file is nil,
  \<open>UpdateSchemaCache\<close> returns nil and does nothing but set the schema-loaded flag: the
  store is not asked for schemas. Whenever the toolchain is not loaded it returns the
  error "cannot update schema as terraform executor is not available yet" and changes
  nothing, whatever the lock file.
\<close>

theorem UpdateSchemaCache_guards:
  "(IsTerraformLoaded rm \<longrightarrow>
      UpdateSchemaCache d ctx None rm =
        (called (Ran SUpdateSchemaCache None) (setSchemaLoaded True rm), None))
   \<and> (\<not> IsTerraformLoaded rm \<longrightarrow>
      UpdateSchemaCache d ctx lockFile rm =
        (called (Ran SUpdateSchemaCache (Some (ErrorString
           ''cannot update schema as terraform executor is not available yet''))) rm,
         Some (ErrorString ''cannot update schema as terraform executor is not available yet'')))"
  by (simp add: UpdateSchemaCache_def ran_def)

theorem UpdateSchemaCache_guards_witness:
  "IsTerraformLoaded loaded_ok
   \<and> UpdateSchemaCache env_ok 0 None loaded_ok =
        (called (Ran SUpdateSchemaCache None) (setSchemaLoaded True loaded_ok), None)
   \<and> \<not> IsTerraformLoaded not_loaded
   \<and> UpdateSchemaCache env_unreadable 0 (Some (File ''/w/.terraform/plugins/selections.json'' ''h''))
        not_loaded =
        (called (Ran SUpdateSchemaCache (Some (ErrorString
           ''cannot update schema as terraform executor is not available yet''))) not_loaded,
         Some (ErrorString ''cannot update schema as terraform executor is not available yet''))"
proof -
  have a: "IsTerraformLoaded loaded_ok" by (simp add: model_defs)
  have b: "\<not> IsTerraformLoaded not_loaded" by (simp add: model_defs)
  show ?thesis
    using a b UpdateSchemaCache_guards [of loaded_ok env_ok 0]
      UpdateSchemaCache_guards [of not_loaded env_unreadable 0
        "Some (File ''/w/.terraform/plugins/selections.json'' ''h'')"]
    by simp
qed

text \<open>
  C10. The parser-loaded flag does not imply a parser: in the object built with a
  toolchain of an unsupported version the flag is set and the parser is nil, and the
  reload that \<open>StartLoading\<close> starts panics when \<open>ParseProviderReferences\<close> calls
  \<open>SetProviderReferences\<close> on it.
\<close>

theorem reload_dereferences_nil_parser:
  "\<not> panics (NewRootModule env_old_toolchain 0 ''/w'')
   \<and> IsParserLoaded loaded_old_toolchain \<and> parser loaded_old_toolchain = None
   \<and> panics (ParseProviderReferences env_old_toolchain loaded_old_toolchain)
   \<and> panics (run env_old_toolchain [CallStartLoading, Run 0, Run 0, Run 0, Run 0, Run 0]
        (system_of loaded_old_toolchain))"
  by (simp add: run_defs model_defs)

end
